theory Spec2Isabelle
  imports Complex_Main "HOL-Library.Sublist"
begin

section \<open>Strings\<close>

text \<open>
  Every string the program inspects is a field of a decoded station record or a literal of
  the program text, and both are well-formed UTF-8. Such a string is represented by the
  sequence of its Unicode code points, which is the unit \<^verbatim>\<open>strings.TrimSpace\<close> and
  \<^verbatim>\<open>strings.ToLower\<close> work on. Byte payloads (HTTP bodies) are kept as \<^typ>\<open>string\<close>.
\<close>

type_synonym rune = nat
type_synonym gostring = "rune list"

definition asc :: "string \<Rightarrow> gostring" where
  "asc cs = map of_char cs"

text \<open>\<^verbatim>\<open>unicode.IsSpace\<close>: the code points with the White_Space property.\<close>

definition unicode_IsSpace :: "rune \<Rightarrow> bool" where
  "unicode_IsSpace r =
     (r = 0x09 \<or> r = 0x0A \<or> r = 0x0B \<or> r = 0x0C \<or> r = 0x0D \<or> r = 0x20 \<or>
      r = 0x85 \<or> r = 0xA0 \<or> r = 0x1680 \<or> (0x2000 \<le> r \<and> r \<le> 0x200A) \<or>
      r = 0x2028 \<or> r = 0x2029 \<or> r = 0x202F \<or> r = 0x205F \<or> r = 0x3000)"

text \<open>\<^verbatim>\<open>strings.TrimSpace\<close>: white space is cut from the front, then from the back.\<close>

definition TrimSpace :: "gostring \<Rightarrow> gostring" where
  "TrimSpace s = rev (dropWhile unicode_IsSpace (rev (dropWhile unicode_IsSpace s)))"

text \<open>
  \<^verbatim>\<open>strings.ToLower\<close> maps every code point through \<^verbatim>\<open>unicode.ToLower\<close>. Below
  U+0080 that is the shift of \<^verbatim>\<open>A..Z\<close>; the case tables for the other code points
  belong to the Go distribution and are the parameter \<open>lw\<close>.
\<close>

definition toLowerRune :: "(rune \<Rightarrow> rune) \<Rightarrow> rune \<Rightarrow> rune" where
  "toLowerRune lw r =
     (if r < 0x80 then (if 0x41 \<le> r \<and> r \<le> 0x5A then r + 0x20 else r) else lw r)"

definition ToLower :: "(rune \<Rightarrow> rune) \<Rightarrow> gostring \<Rightarrow> gostring" where
  "ToLower lw s = map (toLowerRune lw) s"

text \<open>\<^verbatim>\<open>strings.Contains s sub\<close>: \<open>sub\<close> occurs in \<open>s\<close> as a contiguous block.\<close>

definition Contains :: "gostring \<Rightarrow> gostring \<Rightarrow> bool" where
  "Contains s sub = sublist sub s"

definition emDash :: gostring where
  "emDash = [0x2014]"

definition queShi :: gostring where
  "queShi = [0x7F3A, 0x5931]"

section \<open>Missing-value detection\<close>

definition isMissingValue :: "(rune \<Rightarrow> rune) \<Rightarrow> gostring \<Rightarrow> bool" where
  "isMissingValue lw s0 =
     (let s = TrimSpace s0 in
      if s = [] then True
      else let l = ToLower lw s in
        if l = asc ''-'' \<or> l = emDash \<or> l = asc ''na'' \<or> l = asc ''n/a'' \<or> l = asc ''null''
        then True
        else if Contains s emDash \<or> Contains s queShi then True
        else False)"

section \<open>Station records\<close>

record AQIData =
  PositionName :: gostring
  Quality :: gostring
  AQI :: gostring
  O3 :: gostring
  NO2 :: gostring
  PM10 :: gostring
  PM25 :: gostring
  SO2 :: gostring
  CO :: gostring
  Latitude :: gostring
  Longitude :: gostring
  TimePoint :: gostring
  StationCode :: gostring
  PrimaryPollutant :: gostring

text \<open>The single entry of the map \<^verbatim>\<open>ignorePositionNames\<close>; the program only tests membership.\<close>

definition ignorePositionNames :: "gostring set" where
  "ignorePositionNames = {[0x5E3D, 0x5CF0, 0x5C71, 0x68EE, 0x6797, 0x516C, 0x56ED]}"

definition hasMissingData :: "(rune \<Rightarrow> rune) \<Rightarrow> AQIData \<Rightarrow> bool" where
  "hasMissingData lw st =
     (isMissingValue lw (AQI st) \<or>
      isMissingValue lw (PM25 st) \<or>
      isMissingValue lw (PM10 st) \<or>
      isMissingValue lw (O3 st) \<or>
      isMissingValue lw (NO2 st) \<or>
      isMissingValue lw (SO2 st) \<or>
      isMissingValue lw (CO st))"

definition getMissingFactors :: "(rune \<Rightarrow> rune) \<Rightarrow> AQIData \<Rightarrow> gostring list" where
  "getMissingFactors lw st =
     (let missing = [];
          missing = (if isMissingValue lw (AQI st) then missing @ [asc ''AQI''] else missing);
          missing = (if isMissingValue lw (PM25 st) then missing @ [asc ''PM2.5''] else missing);
          missing = (if isMissingValue lw (PM10 st) then missing @ [asc ''PM10''] else missing);
          missing = (if isMissingValue lw (O3 st) then missing @ [asc ''O3''] else missing);
          missing = (if isMissingValue lw (NO2 st) then missing @ [asc ''NO2''] else missing);
          missing = (if isMissingValue lw (SO2 st) then missing @ [asc ''SO2''] else missing);
          missing = (if isMissingValue lw (CO st) then missing @ [asc ''CO''] else missing)
      in missing)"

text \<open>
  The selection loop of \<^verbatim>\<open>main\<close>: \<open>selectLoop lw data acc\<close> runs the loop body over the
  stations still to be visited, \<open>acc\<close> being the slice \<^verbatim>\<open>problemStations\<close> built so far.
\<close>

fun selectLoop :: "(rune \<Rightarrow> rune) \<Rightarrow> AQIData list \<Rightarrow> AQIData list \<Rightarrow> AQIData list" where
  "selectLoop lw [] acc = acc"
| "selectLoop lw (station # rest) acc =
     (if PositionName station \<in> ignorePositionNames then selectLoop lw rest acc
      else if hasMissingData lw station then selectLoop lw rest (acc @ [station])
      else selectLoop lw rest acc)"

definition problemStations :: "(rune \<Rightarrow> rune) \<Rightarrow> AQIData list \<Rightarrow> AQIData list" where
  "problemStations lw data = selectLoop lw data []"

text \<open>\<^verbatim>\<open>strings.Join\<close>.\<close>

fun Join :: "gostring list \<Rightarrow> gostring \<Rightarrow> gostring" where
  "Join [] sep = []"
| "Join [x] sep = x"
| "Join (x # y # ys) sep = x @ sep @ Join (y # ys) sep"

definition formatMissingFactors :: "gostring list \<Rightarrow> gostring" where
  "formatMissingFactors factors = (if factors = [] then [0x65E0] else Join factors [0x3001])"

text \<open>A station with every reading present, for the examples.\<close>

definition station0 :: AQIData where
  "station0 = \<lparr>PositionName = [], Quality = [], AQI = asc ''35'', O3 = asc ''35'', NO2 = asc ''35'',
     PM10 = asc ''35'', PM25 = asc ''35'', SO2 = asc ''35'', CO = asc ''35'', Latitude = [],
     Longitude = [], TimePoint = [], StationCode = [], PrimaryPollutant = []\<rparr>"

section \<open>Time labels\<close>






subsection \<open>The library's parser on the five layouts\<close>















section \<open>Fetching and decoding\<close>

text \<open>
  \<^verbatim>\<open>encoding/json\<close> belongs to the Go distribution; the program's use of it is the
  record \<open>J\<close>. For \<^verbatim>\<open>json.Unmarshal(v, &arr)\<close> with \<^verbatim>\<open>arr\<close> a slice of station
  records, \<open>arr_ok J v\<close> says that the call returns no error and \<open>arr_store J v arr\<close> is the
  slice the call leaves in \<^verbatim>\<open>arr\<close>, which held \<open>arr\<close> before (a call that fails may
  already have written to it). \<open>obj_parse J raw\<close> is \<^verbatim>\<open>json.Unmarshal(raw, &obj)\<close> for a
  map from keys to raw messages, \<open>None\<close> when it returns an error, and \<open>generic_parse J\<close>
  is the same call for a map from keys to decoded values.
\<close>

datatype gval =
  GNil | GBool bool | GFloat64 real | GString gostring | GArray "gval list"
  | GMap "(gostring \<times> gval) list"

record json_lib =
  arr_ok :: "string \<Rightarrow> bool"
  arr_store :: "string \<Rightarrow> AQIData list \<Rightarrow> AQIData list"
  obj_parse :: "string \<Rightarrow> (gostring \<rightharpoonup> string) option"
  generic_parse :: "string \<Rightarrow> (gostring \<rightharpoonup> gval) option"

datatype fetch_error =
  TransportError gostring | StatusError nat string | ReadError gostring | DecodeError

text \<open>
  What the HTTP client does with one GET: \<^verbatim>\<open>client.Do\<close> fails, or a response arrives
  with a status, the bytes of its body and, where reading the body fails, the read error.
\<close>

datatype http_outcome = DoFails gostring | Responds nat string "gostring option"

definition wrapperKeys :: "gostring list" where
  "wrapperKeys = [asc ''Data'', asc ''data'', asc ''Rows'', asc ''rows'', asc ''Table'', asc ''table'',
     asc ''records'', asc ''Records'']"

text \<open>The loop over \<^verbatim>\<open>keys\<close>; the flag of the result says whether the loop returned.\<close>

fun tryKeys ::
  "json_lib \<Rightarrow> (gostring \<rightharpoonup> string) \<Rightarrow> gostring list \<Rightarrow> AQIData list \<Rightarrow> bool \<times> AQIData list" where
  "tryKeys J obj [] arr = (False, arr)"
| "tryKeys J obj (k # ks) arr =
     (case obj k of
        None \<Rightarrow> tryKeys J obj ks arr
      | Some v \<Rightarrow>
          if arr_ok J v then (True, arr_store J v arr)
          else tryKeys J obj ks (arr_store J v arr))"

text \<open>
  \<^verbatim>\<open>for _, v := range obj\<close> visits every entry of the map once, in an order the Go
  runtime picks anew for each loop. The order of one run is \<open>order\<close>, a list of the keys.
\<close>

definition rangeValues :: "(gostring \<rightharpoonup> string) \<Rightarrow> gostring list \<Rightarrow> string list" where
  "rangeValues obj order = List.map_filter obj order"

fun scanValues :: "json_lib \<Rightarrow> string list \<Rightarrow> AQIData list \<Rightarrow> bool \<times> AQIData list" where
  "scanValues J [] arr = (False, arr)"
| "scanValues J (v # vs) arr =
     (if arr_ok J v then (True, arr_store J v arr)
      else scanValues J vs (arr_store J v arr))"

text \<open>The second half of \<^verbatim>\<open>fetchAQIData\<close>, from the declaration of \<^verbatim>\<open>arr\<close> on.\<close>

definition decodeResponse :: "json_lib \<Rightarrow> gostring list \<Rightarrow> string \<Rightarrow> fetch_error + AQIData list" where
  "decodeResponse J order raw =
     (let arr = [] in
      if arr_ok J raw then Inr (arr_store J raw arr)
      else
        let arr = arr_store J raw arr in
        case obj_parse J raw of
          None \<Rightarrow> Inl DecodeError
        | Some obj \<Rightarrow>
            (case tryKeys J obj wrapperKeys arr of
               (True, arr) \<Rightarrow> Inr arr
             | (False, arr) \<Rightarrow>
                 (case scanValues J (rangeValues obj order) arr of
                    (True, arr) \<Rightarrow> Inr arr
                  | (False, arr) \<Rightarrow> Inl DecodeError)))"


text \<open>
  \<^verbatim>\<open>http.NewRequestWithContext\<close> is called with a constant method and URL and a
  background context, so it returns no error.
\<close>

definition fetchAQIData :: "json_lib \<Rightarrow> http_outcome \<times> gostring list \<Rightarrow> fetch_error + AQIData list" where
  "fetchAQIData J w =
     (case fst w of
        DoFails e \<Rightarrow> Inl (TransportError e)
      | Responds status body readErr \<Rightarrow>
          if status \<noteq> 200 then Inl (StatusError status (take 2048 body))
          else (case readErr of
                  Some e \<Rightarrow> Inl (ReadError e)
                | None \<Rightarrow> decodeResponse J (snd w) body))"

subsection \<open>The retry loop of main\<close>

datatype event = Fetch nat | Sleep nat

record run_state =
  rs_data :: "AQIData list"
  rs_err :: "fetch_error option"
  rs_trace :: "event list"

text \<open>\<^verbatim>\<open>time.Duration(500*(1<<i)) * time.Millisecond\<close>, in milliseconds.\<close>

definition wait_ms :: "nat \<Rightarrow> nat" where
  "wait_ms i = 500 * 2 ^ i"

text \<open>
  \<open>world i\<close> is what the \<open>i\<close>-th request meets: the outcome of the GET and the order in
  which the decoder's \<^verbatim>\<open>range\<close> visits the map.
\<close>

function retryLoop ::
  "json_lib \<Rightarrow> (nat \<Rightarrow> http_outcome \<times> gostring list) \<Rightarrow> nat \<Rightarrow> run_state \<Rightarrow> run_state" where
  "retryLoop J world i st =
     (if i < 3 then
        (case fetchAQIData J (world i) of
           Inr d \<Rightarrow> st\<lparr>rs_data := d, rs_err := None, rs_trace := rs_trace st @ [Fetch i]\<rparr>
         | Inl e \<Rightarrow>
             retryLoop J world (i + 1)
               (st\<lparr>rs_data := [], rs_err := Some e,
                   rs_trace := rs_trace st @ [Fetch i, Sleep (wait_ms i)]\<rparr>))
      else st)"
  by pat_completeness auto
termination
  by (relation "measure (\<lambda>(J, world, i, st). 3 - i)") auto

text \<open>
  The loop and the test after it: \<open>Inl e\<close> is the error handed to \<^verbatim>\<open>log.Fatalf\<close>,
  \<open>Inr d\<close> the stations the run goes on with.
\<close>

definition fetchWithRetry ::
  "json_lib \<Rightarrow> (nat \<Rightarrow> http_outcome \<times> gostring list) \<Rightarrow> (fetch_error + AQIData list) \<times> event list" where
  "fetchWithRetry J world =
     (let st = retryLoop J world 0 \<lparr>rs_data = [], rs_err = None, rs_trace = []\<rparr> in
      (case rs_err st of Some e \<Rightarrow> Inl e | None \<Rightarrow> Inr (rs_data st), rs_trace st))"

definition fetches :: "event list \<Rightarrow> nat list" where
  "fetches tr = concat (map (\<lambda>ev. case ev of Fetch i \<Rightarrow> [i] | Sleep _ \<Rightarrow> []) tr)"

section \<open>Alerts\<close>














section \<open>Example payloads\<close>

text \<open>
  What \<^verbatim>\<open>encoding/json\<close> does on a handful of payloads, tabulated so that the functions
  above can be run on them: two station arrays, two objects wrapping them, and three
  webhook replies. Every other payload is treated as malformed.
\<close>

definition stationNamed :: "gostring \<Rightarrow> AQIData" where
  "stationNamed n = \<lparr>PositionName = n, Quality = [], AQI = [], O3 = [], NO2 = [], PM10 = [],
     PM25 = [], SO2 = [], CO = [], Latitude = [], Longitude = [], TimePoint = [], StationCode = [],
     PrimaryPollutant = []\<rparr>"

definition arrX :: string where
  \<open>arrX = ''[{"PositionName":"X"}]''\<close>

definition arrY :: string where
  \<open>arrY = ''[{"PositionName":"Y"}]''\<close>

definition objAB :: string where
  \<open>objAB = ''{"a":[{"PositionName":"X"}],"b":[{"PositionName":"Y"}]}''\<close>

definition objRowsData :: string where
  \<open>objRowsData = ''{"Rows":[{"PositionName":"X"}],"data":[{"PositionName":"Y"}]}''\<close>

definition replyOk :: string where
  \<open>replyOk = ''{"errcode":0,"errmsg":"ok"}''\<close>

definition replyBadKey :: string where
  \<open>replyBadKey = ''{"errcode":93000,"errmsg":"invalid webhook url"}''\<close>

definition exampleJ :: json_lib where
  "exampleJ =
     \<lparr>arr_ok = (\<lambda>v. v = arrX \<or> v = arrY),
      arr_store = (\<lambda>v arr. if v = arrX then [stationNamed (asc ''X'')]
                           else if v = arrY then [stationNamed (asc ''Y'')] else arr),
      obj_parse = (\<lambda>raw. if raw = objAB then Some [asc ''a'' \<mapsto> arrX, asc ''b'' \<mapsto> arrY]
                          else if raw = objRowsData then Some [asc ''Rows'' \<mapsto> arrX, asc ''data'' \<mapsto> arrY]
                          else None),
      generic_parse = (\<lambda>body. if body = replyOk
                                then Some [asc ''errcode'' \<mapsto> GFloat64 0, asc ''errmsg'' \<mapsto> GString (asc ''ok'')]
                              else if body = replyBadKey
                                then Some [asc ''errcode'' \<mapsto> GFloat64 93000,
                                           asc ''errmsg'' \<mapsto> GString (asc ''invalid webhook url'')]
                              else None)\<rparr>"

text \<open>An upstream that answers every request with status 200 and a body that is no JSON.\<close>

definition garbageWorld :: "nat \<Rightarrow> http_outcome \<times> gostring list" where
  "garbageWorld i = (Responds 200 ''garbage'' None, [])"

text \<open>An upstream that answers every request with status 503.\<close>

definition downWorld :: "nat \<Rightarrow> http_outcome \<times> gostring list" where
  "downWorld i = (Responds 503 ''unavailable'' None, [])"

section \<open>Properties of missing-value detection\<close>

lemma sublist_dropWhile:
  assumes "xs \<noteq> []" and "\<not> P (hd xs)"
  shows "sublist xs (dropWhile P ys) = sublist xs ys"
proof (induction ys)
  case Nil
  show ?case by simp
next
  case (Cons y ys)
  show ?case
  proof (cases "P y")
    case True
    have "\<not> prefix xs (y # ys)"
      using assms True by (cases xs) (auto simp: prefix_Cons)
    then show ?thesis
      using True Cons by (simp add: sublist_Cons_right)
  next
    case False
    then show ?thesis by simp
  qed
qed

lemma Contains_TrimSpace:
  assumes "sub \<noteq> []" and "\<not> unicode_IsSpace (hd sub)" and "\<not> unicode_IsSpace (last sub)"
  shows "Contains (TrimSpace s) sub = Contains s sub"
proof -
  have r: "rev sub \<noteq> []" "\<not> unicode_IsSpace (hd (rev sub))"
    using assms by (simp_all add: hd_rev)
  have "sublist sub (TrimSpace s) =
          sublist (rev sub) (dropWhile unicode_IsSpace (rev (dropWhile unicode_IsSpace s)))"
    by (simp add: TrimSpace_def sublist_rev_right)
  also have "\<dots> = sublist (rev sub) (rev (dropWhile unicode_IsSpace s))"
    using r by (rule sublist_dropWhile [where P = unicode_IsSpace])
  also have "\<dots> = sublist sub (dropWhile unicode_IsSpace s)"
    by simp
  also have "\<dots> = sublist sub s"
    using assms(1,2) by (rule sublist_dropWhile [where P = unicode_IsSpace])
  finally show ?thesis by (simp add: Contains_def)
qed

lemma Contains_TrimSpace_emDash: "Contains (TrimSpace s) emDash = Contains s emDash"
  by (rule Contains_TrimSpace) (simp_all add: emDash_def unicode_IsSpace_def)

lemma Contains_TrimSpace_queShi: "Contains (TrimSpace s) queShi = Contains s queShi"
  by (rule Contains_TrimSpace) (simp_all add: queShi_def unicode_IsSpace_def)

lemmas missing_eval =
  isMissingValue_def TrimSpace_def unicode_IsSpace_def asc_def ToLower_def toLowerRune_def
  Contains_def emDash_def queShi_def sublist_code prefix_code

lemma present_35: "\<not> isMissingValue lw (asc ''35'')"
  by (simp add: missing_eval)

text \<open>
  C1. A value is classified as missing exactly when its trimmed form is empty, or the
  lower-cased trimmed form is one of \<^verbatim>\<open>-\<close>, the em-dash, \<^verbatim>\<open>na\<close>, \<^verbatim>\<open>n/a\<close>,
  \<^verbatim>\<open>null\<close>, or the value itself contains the em-dash or the two-character marker
  anywhere; the value \<^verbatim>\<open>35\<close> is present. (The program searches the trimmed value;
  neither marker has white space in it, so that is the same as searching the value.)
\<close>

theorem isMissingValue_classifies:
  "isMissingValue lw s =
     (TrimSpace s = []
      \<or> ToLower lw (TrimSpace s) \<in> {asc ''-'', emDash, asc ''na'', asc ''n/a'', asc ''null''}
      \<or> Contains s emDash \<or> Contains s queShi)
   \<and> \<not> isMissingValue lw (asc ''35'')"
proof (rule conjI)
  show "isMissingValue lw s =
     (TrimSpace s = []
      \<or> ToLower lw (TrimSpace s) \<in> {asc ''-'', emDash, asc ''na'', asc ''n/a'', asc ''null''}
      \<or> Contains s emDash \<or> Contains s queShi)"
    by (auto simp add: isMissingValue_def Let_def Contains_TrimSpace_emDash
          Contains_TrimSpace_queShi)
  show "\<not> isMissingValue lw (asc ''35'')"
    by (rule present_35)
qed

theorem isMissingValue_classifies_witness:
  "isMissingValue (\<lambda>r. r) (asc '' N/A '')
   \<and> ToLower (\<lambda>r. r) (TrimSpace (asc '' N/A '')) = asc ''n/a''
   \<and> isMissingValue (\<lambda>r. r) ([0x20ac] @ emDash @ asc ''x'')
   \<and> \<not> isMissingValue (\<lambda>r. r) (asc ''35'')"
  using isMissingValue_classifies [of "\<lambda>r. r" "asc '' N/A ''"]
    isMissingValue_classifies [of "\<lambda>r. r" "[0x20ac] @ emDash @ asc ''x''"]
  by (simp add: missing_eval)

section \<open>Properties of the station checks\<close>

lemma getMissingFactors_filter:
  "getMissingFactors lw st =
     map fst (filter (\<lambda>(n, v). isMissingValue lw v)
       [(asc ''AQI'', AQI st), (asc ''PM2.5'', PM25 st), (asc ''PM10'', PM10 st),
        (asc ''O3'', O3 st), (asc ''NO2'', NO2 st), (asc ''SO2'', SO2 st), (asc ''CO'', CO st)])"
  by (simp add: getMissingFactors_def)

lemma getMissingFactors_subseq:
  "subseq (getMissingFactors lw st)
     [asc ''AQI'', asc ''PM2.5'', asc ''PM10'', asc ''O3'', asc ''NO2'', asc ''SO2'', asc ''CO'']"
proof -
  let ?fs = "[(asc ''AQI'', AQI st), (asc ''PM2.5'', PM25 st), (asc ''PM10'', PM10 st),
        (asc ''O3'', O3 st), (asc ''NO2'', NO2 st), (asc ''SO2'', SO2 st), (asc ''CO'', CO st)]"
  have "subseq (map fst (filter (\<lambda>(n, v). isMissingValue lw v) ?fs)) (map fst ?fs)"
    by (intro subseq_map subseq_filter_left)
  then show ?thesis by (simp only: getMissingFactors_filter) simp
qed

lemma getMissingFactors_empty: "(getMissingFactors lw st = []) = (\<not> hasMissingData lw st)"
  by (auto simp add: getMissingFactors_def hasMissingData_def)

lemma selectLoop_filter:
  "selectLoop lw stations acc =
     acc @ filter (\<lambda>st. PositionName st \<notin> ignorePositionNames \<and> hasMissingData lw st) stations"
  by (induction stations arbitrary: acc) simp_all

lemma problemStations_filter:
  "problemStations lw stations =
     filter (\<lambda>st. PositionName st \<notin> ignorePositionNames \<and> hasMissingData lw st) stations"
  by (simp add: problemStations_def selectLoop_filter)

lemma station0_name: "PositionName station0 = []"
  by (simp add: station0_def)

lemma station0_present: "\<not> hasMissingData lw station0"
  by (simp add: hasMissingData_def station0_def present_35)

lemma station0_AQI_missing: "hasMissingData lw (station0\<lparr>AQI := []\<rparr>)"
  by (simp add: hasMissingData_def isMissingValue_def TrimSpace_def)

text \<open>
  C2, as the program has it. A station has missing data exactly when at least one of seven
  fields is classified as missing: the composite index AQI and the six pollutants PM2.5,
  PM10, O3, NO2, SO2 and CO.
\<close>

theorem hasMissingData_seven_fields:
  "hasMissingData lw r =
     (isMissingValue lw (AQI r) \<or> isMissingValue lw (PM25 r) \<or> isMissingValue lw (PM10 r)
      \<or> isMissingValue lw (O3 r) \<or> isMissingValue lw (NO2 r) \<or> isMissingValue lw (SO2 r)
      \<or> isMissingValue lw (CO r))"
  by (simp add: hasMissingData_def)

theorem hasMissingData_seven_fields_witness:
  "hasMissingData (\<lambda>r. r) (station0\<lparr>CO := asc ''null''\<rparr>)
   \<and> isMissingValue (\<lambda>r. r) (CO (station0\<lparr>CO := asc ''null''\<rparr>))"
  using hasMissingData_seven_fields [of "\<lambda>r. r" "station0\<lparr>CO := asc ''null''\<rparr>"]
  by (simp add: missing_eval)

text \<open>
  C2, as the claim has it, fails: a station whose six pollutant readings are all present and
  whose AQI is empty has missing data.
\<close>

theorem hasMissingData_six_fields_counterexample:
  "hasMissingData (\<lambda>r. r) (station0\<lparr>AQI := []\<rparr>)
   \<and> \<not> (isMissingValue (\<lambda>r. r) (O3 (station0\<lparr>AQI := []\<rparr>))
        \<or> isMissingValue (\<lambda>r. r) (NO2 (station0\<lparr>AQI := []\<rparr>))
        \<or> isMissingValue (\<lambda>r. r) (PM10 (station0\<lparr>AQI := []\<rparr>))
        \<or> isMissingValue (\<lambda>r. r) (PM25 (station0\<lparr>AQI := []\<rparr>))
        \<or> isMissingValue (\<lambda>r. r) (SO2 (station0\<lparr>AQI := []\<rparr>))
        \<or> isMissingValue (\<lambda>r. r) (CO (station0\<lparr>AQI := []\<rparr>)))"
  by (simp add: station0_AQI_missing) (simp add: station0_def present_35)

text \<open>
  C3. The problem list is the input sequence, in its order, restricted to the stations whose
  name is not in the ignore set and that have missing data; no station with an ignored name
  is on it, whatever its readings; and the missing factors of a station are the names, in
  the order AQI, PM2.5, PM10, O3, NO2, SO2, CO, of the fields classified as missing.
\<close>

theorem problemStations_selects:
  "problemStations lw stations =
     filter (\<lambda>st. PositionName st \<notin> ignorePositionNames \<and> hasMissingData lw st) stations
   \<and> subseq (problemStations lw stations) stations
   \<and> (\<forall>st \<in> set (problemStations lw stations). PositionName st \<notin> ignorePositionNames)
   \<and> (\<forall>st \<in> set (problemStations lw stations).
        getMissingFactors lw st =
          map fst (filter (\<lambda>(n, v). isMissingValue lw v)
            [(asc ''AQI'', AQI st), (asc ''PM2.5'', PM25 st), (asc ''PM10'', PM10 st),
             (asc ''O3'', O3 st), (asc ''NO2'', NO2 st), (asc ''SO2'', SO2 st), (asc ''CO'', CO st)])
        \<and> subseq (getMissingFactors lw st)
            [asc ''AQI'', asc ''PM2.5'', asc ''PM10'', asc ''O3'', asc ''NO2'', asc ''SO2'', asc ''CO''])"
proof (intro conjI ballI)
  show "problemStations lw stations =
     filter (\<lambda>st. PositionName st \<notin> ignorePositionNames \<and> hasMissingData lw st) stations"
    by (rule problemStations_filter)
  show "subseq (problemStations lw stations) stations"
    by (simp add: problemStations_filter)
next
  fix st assume "st \<in> set (problemStations lw stations)"
  then show "PositionName st \<notin> ignorePositionNames"
    by (simp add: problemStations_filter)
next
  fix st
  show "getMissingFactors lw st =
          map fst (filter (\<lambda>(n, v). isMissingValue lw v)
            [(asc ''AQI'', AQI st), (asc ''PM2.5'', PM25 st), (asc ''PM10'', PM10 st),
             (asc ''O3'', O3 st), (asc ''NO2'', NO2 st), (asc ''SO2'', SO2 st), (asc ''CO'', CO st)])"
    by (rule getMissingFactors_filter)
  show "subseq (getMissingFactors lw st)
            [asc ''AQI'', asc ''PM2.5'', asc ''PM10'', asc ''O3'', asc ''NO2'', asc ''SO2'', asc ''CO'']"
    by (rule getMissingFactors_subseq)
qed

theorem problemStations_selects_witness:
  "problemStations (\<lambda>r. r)
     [station0,
      station0\<lparr>PositionName := [0x5E3D, 0x5CF0, 0x5C71, 0x68EE, 0x6797, 0x516C, 0x56ED], AQI := []\<rparr>,
      station0\<lparr>AQI := []\<rparr>]
   = [station0\<lparr>AQI := []\<rparr>]"
  using problemStations_selects [THEN conjunct1, of "\<lambda>r. r"
     "[station0,
      station0\<lparr>PositionName := [0x5E3D, 0x5CF0, 0x5C71, 0x68EE, 0x6797, 0x516C, 0x56ED], AQI := []\<rparr>,
      station0\<lparr>AQI := []\<rparr>]"]
  by (simp add: ignorePositionNames_def station0_name station0_present station0_AQI_missing)

text \<open>
  C10. A station has missing data exactly when its list of missing factors is not empty;
  that list is always a subsequence of AQI, PM2.5, PM10, O3, NO2, SO2, CO; so for every
  station on the problem list the list is not empty and the alert names its factors, joined
  by the separator, and never prints the placeholder for an empty list.
\<close>

theorem hasMissingData_iff_factors:
  "hasMissingData lw r = (getMissingFactors lw r \<noteq> [])
   \<and> subseq (getMissingFactors lw r)
       [asc ''AQI'', asc ''PM2.5'', asc ''PM10'', asc ''O3'', asc ''NO2'', asc ''SO2'', asc ''CO'']
   \<and> (\<forall>st \<in> set (problemStations lw stations).
        getMissingFactors lw st \<noteq> []
        \<and> formatMissingFactors (getMissingFactors lw st) = Join (getMissingFactors lw st) [0x3001])"
  by (simp add: getMissingFactors_empty getMissingFactors_subseq problemStations_filter
        formatMissingFactors_def)

theorem hasMissingData_iff_factors_witness:
  "hasMissingData (\<lambda>r. r) (station0\<lparr>AQI := [], PM25 := asc ''-''\<rparr>)
   \<and> getMissingFactors (\<lambda>r. r) (station0\<lparr>AQI := [], PM25 := asc ''-''\<rparr>) = [asc ''AQI'', asc ''PM2.5'']"
proof -
  have "getMissingFactors (\<lambda>r. r) (station0\<lparr>AQI := [], PM25 := asc ''-''\<rparr>) = [asc ''AQI'', asc ''PM2.5'']"
    by (simp add: getMissingFactors_def station0_def present_35)
       (simp add: isMissingValue_def TrimSpace_def unicode_IsSpace_def asc_def ToLower_def
          toLowerRune_def)
  then show ?thesis
    using hasMissingData_iff_factors [THEN conjunct1, of "\<lambda>r. r" "station0\<lparr>AQI := [], PM25 := asc ''-''\<rparr>"]
    by simp
qed

section \<open>Properties of the retry loop\<close>

declare retryLoop.simps [simp del]

lemma retryLoop_done: "\<not> i < 3 \<Longrightarrow> retryLoop J world i st = st"
  by (subst retryLoop.simps) simp

lemma retryLoop_ok:
  "i < 3 \<Longrightarrow> fetchAQIData J (world i) = Inr d \<Longrightarrow>
     retryLoop J world i st = st\<lparr>rs_data := d, rs_err := None, rs_trace := rs_trace st @ [Fetch i]\<rparr>"
  by (subst retryLoop.simps) simp

lemma retryLoop_fail:
  "i < 3 \<Longrightarrow> fetchAQIData J (world i) = Inl e \<Longrightarrow>
     retryLoop J world i st =
       retryLoop J world (i + 1)
         (st\<lparr>rs_data := [], rs_err := Some e, rs_trace := rs_trace st @ [Fetch i, Sleep (wait_ms i)]\<rparr>)"
  by (subst retryLoop.simps) simp

lemma wait_ms_values: "wait_ms 0 = 500" "wait_ms 1 = 1000" "wait_ms (Suc 0) = 1000" "wait_ms 2 = 2000"
  by (simp_all add: wait_ms_def)

lemma run_first_ok:
  assumes "fetchAQIData J (world 0) = Inr d"
  shows "fetchWithRetry J world = (Inr d, [Fetch 0])"
  using assms by (simp add: fetchWithRetry_def retryLoop_ok)

lemma run_second_ok:
  assumes "fetchAQIData J (world 0) = Inl e0" and "fetchAQIData J (world 1) = Inr d"
  shows "fetchWithRetry J world = (Inr d, [Fetch 0, Sleep 500, Fetch 1])"
  using assms by (simp add: fetchWithRetry_def retryLoop_fail retryLoop_ok wait_ms_values)

lemma run_third_ok:
  assumes "fetchAQIData J (world 0) = Inl e0" and "fetchAQIData J (world 1) = Inl e1"
    and "fetchAQIData J (world 2) = Inr d"
  shows "fetchWithRetry J world = (Inr d, [Fetch 0, Sleep 500, Fetch 1, Sleep 1000, Fetch 2])"
proof -
  have two: "Suc (Suc 0) = 2" by simp
  show ?thesis
    using assms
    by (simp add: fetchWithRetry_def retryLoop_fail retryLoop_ok wait_ms_values two)
qed

lemma run_all_fail:
  assumes "fetchAQIData J (world 0) = Inl e0" and "fetchAQIData J (world 1) = Inl e1"
    and "fetchAQIData J (world 2) = Inl e2"
  shows "fetchWithRetry J world =
           (Inl e2, [Fetch 0, Sleep 500, Fetch 1, Sleep 1000, Fetch 2, Sleep 2000])"
proof -
  have two: "Suc (Suc 0) = 2" and three: "Suc 2 = 3" by simp_all
  show ?thesis
    using assms
    by (simp add: fetchWithRetry_def retryLoop_fail retryLoop_done wait_ms_values two three)
qed

lemma run_fetches_le: "length (fetches (snd (fetchWithRetry J world))) \<le> 3"
proof (cases "fetchAQIData J (world 0)")
  case (Inr d)
  then show ?thesis by (simp add: run_first_ok fetches_def)
next
  case e0: (Inl e0)
  show ?thesis
  proof (cases "fetchAQIData J (world 1)")
    case (Inr d)
    with e0 show ?thesis by (simp add: run_second_ok fetches_def)
  next
    case e1: (Inl e1)
    show ?thesis
    proof (cases "fetchAQIData J (world 2)")
      case (Inr d)
      with e0 e1 show ?thesis by (simp add: run_third_ok fetches_def)
    next
      case (Inl e2)
      with e0 e1 show ?thesis by (simp add: run_all_fail fetches_def)
    qed
  qed
qed

lemma garbage_undecodable: "fetchAQIData exampleJ (garbageWorld i) = Inl DecodeError"
  by (simp add: fetchAQIData_def garbageWorld_def decodeResponse_def exampleJ_def arrX_def arrY_def
        objAB_def objRowsData_def)

lemma down_status: "fetchAQIData exampleJ (downWorld i) = Inl (StatusError 503 ''unavailable'')"
  by (simp add: fetchAQIData_def downWorld_def)

text \<open>
  C4. A run issues at most three requests. When all three fail, it has issued exactly
  three and hands on the error of the third; after the failure of request \<open>i\<close> it sleeps
  \<open>500 * 2 ^ i\<close> milliseconds, that is 500, 1000 and 2000, before it goes on.
\<close>

theorem retry_policy:
  "length (fetches (snd (fetchWithRetry J world))) \<le> 3
   \<and> ((\<forall>i < 3. fetchAQIData J (world i) = Inl (e i)) \<longrightarrow>
        fetchWithRetry J world =
          (Inl (e 2), [Fetch 0, Sleep (wait_ms 0), Fetch 1, Sleep (wait_ms 1), Fetch 2, Sleep (wait_ms 2)]))
   \<and> (fetchAQIData J (world 0) = Inl e0 \<and> fetchAQIData J (world 1) = Inr d \<longrightarrow>
        fetchWithRetry J world = (Inr d, [Fetch 0, Sleep (wait_ms 0), Fetch 1]))
   \<and> (fetchAQIData J (world 0) = Inl e0 \<and> fetchAQIData J (world 1) = Inl e1
        \<and> fetchAQIData J (world 2) = Inr d \<longrightarrow>
        fetchWithRetry J world = (Inr d, [Fetch 0, Sleep (wait_ms 0), Fetch 1, Sleep (wait_ms 1), Fetch 2]))
   \<and> wait_ms i = 500 * 2 ^ i \<and> wait_ms 0 = 500 \<and> wait_ms 1 = 1000 \<and> wait_ms 2 = 2000"
proof (intro conjI impI)
  show "length (fetches (snd (fetchWithRetry J world))) \<le> 3"
    by (rule run_fetches_le)
next
  assume a: "\<forall>i < 3. fetchAQIData J (world i) = Inl (e i)"
  have "fetchAQIData J (world 0) = Inl (e 0)" "fetchAQIData J (world 1) = Inl (e 1)"
    "fetchAQIData J (world 2) = Inl (e 2)"
    using a by simp_all
  then show "fetchWithRetry J world =
          (Inl (e 2), [Fetch 0, Sleep (wait_ms 0), Fetch 1, Sleep (wait_ms 1), Fetch 2, Sleep (wait_ms 2)])"
    by (simp add: run_all_fail wait_ms_values)
next
  assume "fetchAQIData J (world 0) = Inl e0 \<and> fetchAQIData J (world 1) = Inr d"
  then show "fetchWithRetry J world = (Inr d, [Fetch 0, Sleep (wait_ms 0), Fetch 1])"
    by (simp add: run_second_ok wait_ms_values)
next
  assume "fetchAQIData J (world 0) = Inl e0 \<and> fetchAQIData J (world 1) = Inl e1
        \<and> fetchAQIData J (world 2) = Inr d"
  then show "fetchWithRetry J world =
      (Inr d, [Fetch 0, Sleep (wait_ms 0), Fetch 1, Sleep (wait_ms 1), Fetch 2])"
    by (simp add: run_third_ok wait_ms_values)
qed (simp_all add: wait_ms_def)

theorem retry_policy_witness:
  "fetchAQIData exampleJ (downWorld 0) = Inl (StatusError 503 ''unavailable'')
   \<and> fetchAQIData exampleJ (downWorld 1) = Inl (StatusError 503 ''unavailable'')
   \<and> fetchAQIData exampleJ (downWorld 2) = Inl (StatusError 503 ''unavailable'')
   \<and> fetchWithRetry exampleJ downWorld =
       (Inl (StatusError 503 ''unavailable''),
        [Fetch 0, Sleep 500, Fetch 1, Sleep 1000, Fetch 2, Sleep 2000])"
  using retry_policy [THEN conjunct2, THEN conjunct1, of exampleJ downWorld
      "\<lambda>i. StatusError 503 ''unavailable''"]
  by (simp add: down_status wait_ms_values)

text \<open>
  C7, as the program has it. The loop retries whatever error the fetch returns, a decode
  error like any other: when the first body arrives and cannot be decoded, the run sleeps
  and issues a second request; when no body can be decoded, it issues all three requests
  and then hands on the decode error.
\<close>

theorem decode_error_retried:
  "(fetchAQIData J (world 0) = Inl DecodeError \<longrightarrow>
      prefix [Fetch 0, Sleep 500, Fetch 1] (snd (fetchWithRetry J world)))
   \<and> ((\<forall>i < 3. fetchAQIData J (world i) = Inl DecodeError) \<longrightarrow>
        fetchWithRetry J world =
          (Inl DecodeError, [Fetch 0, Sleep 500, Fetch 1, Sleep 1000, Fetch 2, Sleep 2000]))"
proof (intro conjI impI)
  assume e0: "fetchAQIData J (world 0) = Inl DecodeError"
  show "prefix [Fetch 0, Sleep 500, Fetch 1] (snd (fetchWithRetry J world))"
  proof (cases "fetchAQIData J (world 1)")
    case (Inr d)
    with e0 show ?thesis by (simp add: run_second_ok)
  next
    case e1: (Inl e1)
    show ?thesis
    proof (cases "fetchAQIData J (world 2)")
      case (Inr d)
      with e0 e1 show ?thesis by (simp add: run_third_ok)
    next
      case (Inl e2)
      with e0 e1 show ?thesis by (simp add: run_all_fail)
    qed
  qed
next
  assume a: "\<forall>i < 3. fetchAQIData J (world i) = Inl DecodeError"
  have "fetchAQIData J (world 0) = Inl DecodeError" "fetchAQIData J (world 1) = Inl DecodeError"
    "fetchAQIData J (world 2) = Inl DecodeError"
    using a by simp_all
  then show "fetchWithRetry J world =
          (Inl DecodeError, [Fetch 0, Sleep 500, Fetch 1, Sleep 1000, Fetch 2, Sleep 2000])"
    by (simp add: run_all_fail)
qed

theorem decode_error_retried_witness:
  "fetchAQIData exampleJ (garbageWorld 0) = Inl DecodeError
   \<and> prefix [Fetch 0, Sleep 500, Fetch 1] (snd (fetchWithRetry exampleJ garbageWorld))"
  using decode_error_retried [THEN conjunct1, of exampleJ garbageWorld]
  by (simp add: garbage_undecodable)

text \<open>
  C7, as the claim has it, fails: against an upstream whose every answer has status 200 and
  a body that cannot be decoded, the first fetch ends in a decode error and the run still
  issues the requests 0, 1 and 2.
\<close>

theorem decode_error_not_retried_counterexample:
  "fetchAQIData exampleJ (garbageWorld 0) = Inl DecodeError
   \<and> fetches (snd (fetchWithRetry exampleJ garbageWorld)) = [0, 1, 2]"
  by (simp add: garbage_undecodable run_all_fail fetches_def)

section \<open>Properties of the decoder\<close>










lemmas example_eval =
  exampleJ_def arrX_def arrY_def objAB_def objRowsData_def asc_def



text \<open>
  C6 fails on the program. The payload below is an object with two members under keys that
  are no wrapper keys, each a station array. The scan is a \<^verbatim>\<open>range\<close> over a Go map, whose
  order changes from run to run: a run that visits \<^verbatim>\<open>a\<close> first returns station X, a run
  that visits \<^verbatim>\<open>b\<close> first returns station Y.
\<close>

theorem decodeResponse_depends_on_order:
  "decodeResponse exampleJ [asc ''a'', asc ''b''] objAB = Inr [stationNamed (asc ''X'')]
   \<and> decodeResponse exampleJ [asc ''b'', asc ''a''] objAB = Inr [stationNamed (asc ''Y'')]
   \<and> stationNamed (asc ''X'') \<noteq> stationNamed (asc ''Y'')"
  by (simp add: decodeResponse_def wrapperKeys_def rangeValues_def map_filter_simps example_eval
        stationNamed_def)

section \<open>Properties of the time label\<close>








section \<open>Properties of the dispatch\<close>







end
